theory Spec2Isabelle
  imports Main
begin

section \<open>Python values\<close>

text \<open>
  The handler of \<^verbatim>\<open>predict.py\<close> moves Python values from the parsed request body to the
  model and from the model to the response, and never computes on them. A float is
  therefore an opaque value: no arithmetic on it is modelled.
\<close>

typedecl float64

text \<open>
  The values a JSON body parses to (\<open>None\<close>, \<open>bool\<close>, \<open>int\<close>, \<open>float\<close>, \<open>str\<close>,
  \<open>list\<close>, \<open>dict\<close> with string keys), and \<open>PObject\<close> for any other Python object, named
  by its type; a model can return one (a numpy integer, an array), and the JSON encoder
  has no encoding for it. A dict is an association list looked up with \<open>map_of\<close>.
\<close>

datatype pyval =
    PNone
  | PBool bool
  | PInt int
  | PFloat float64
  | PStr string
  | PList "pyval list"
  | PDict "(string \<times> pyval) list"
  | PObject string

text \<open>
  The exceptions of the handler: the three it can raise itself, and \<open>Raised\<close> for any
  exception, named by its class, that a call into a library raises
  (\<^verbatim>\<open>request.get_json()\<close>, \<^verbatim>\<open>model.predict\<close>).
\<close>

datatype exn = AttributeError | IndexError | TypeError | Raised string

definition is_number :: "pyval \<Rightarrow> bool" where
  "is_number v = (case v of PInt _ \<Rightarrow> True | PFloat _ \<Rightarrow> True | _ \<Rightarrow> False)"

definition is_dict :: "pyval \<Rightarrow> bool" where
  "is_dict v = (case v of PDict _ \<Rightarrow> True | _ \<Rightarrow> False)"

text \<open>
  \<^verbatim>\<open>data.get(key, default)\<close>: of the values a JSON body parses to, only a dict has
  the method; on a dict the default is returned when the key is absent, and the stored
  value, whatever it is, otherwise.
\<close>

definition py_get :: "pyval \<Rightarrow> string \<Rightarrow> pyval \<Rightarrow> exn + pyval" where
  "py_get data key dflt =
     (case data of
        PDict kvs \<Rightarrow> (case map_of kvs key of None \<Rightarrow> Inr dflt | Some v \<Rightarrow> Inr v)
      | _ \<Rightarrow> Inl AttributeError)"

text \<open>\<^verbatim>\<open>ys[0]\<close> on the sequence a prediction returns.\<close>

definition first :: "pyval list \<Rightarrow> exn + pyval" where
  "first ys = (case ys of [] \<Rightarrow> Inl IndexError | y # _ \<Rightarrow> Inr y)"

section \<open>The response\<close>

record response =
  status :: nat
  body :: "(string \<times> pyval) list"

fun json_encodable :: "pyval \<Rightarrow> bool" where
  "json_encodable (PObject _) = False"
| "json_encodable (PList xs) = list_all json_encodable xs"
| "json_encodable (PDict kvs) = list_all (\<lambda>kv. json_encodable (snd kv)) kvs"
| "json_encodable _ = True"

text \<open>
  \<^verbatim>\<open>jsonify(d)\<close>: a response with the default status whose body is the JSON object
  \<open>d\<close>; the encoder raises \<open>TypeError\<close> on a value it cannot encode.
\<close>

definition jsonify :: "(string \<times> pyval) list \<Rightarrow> exn + response" where
  "jsonify d =
     (if list_all (\<lambda>kv. json_encodable (snd kv)) d
      then Inr \<lparr>status = 200, body = d\<rparr>
      else Inl TypeError)"

section \<open>The process: the loaded model and the handler\<close>

text \<open>
  The model artifact \<^verbatim>\<open>model.joblib\<close> is not part of the repository. Its \<open>predict\<close>
  method is a parameter: from the model object's state \<open>'m\<close> and the rows of features to
  the sequence of predictions or the exception raised, and the object's state
  afterwards.
\<close>

type_synonym 'm predictor = "'m \<Rightarrow> pyval list list \<Rightarrow> (exn + pyval list) \<times> 'm"

text \<open>
  The module's global state: the object bound to \<open>model\<close>, and the files
  \<^verbatim>\<open>joblib.load\<close> has read so far.
\<close>

record 'm process =
  model :: 'm
  loads :: "string list"

text \<open>
  A request that reaches the handler: what \<^verbatim>\<open>request.get_json()\<close> gives for it, the
  parsed body or the exception raised in parsing.
\<close>

record request =
  get_json :: "exn + pyval"

text \<open>
  Line 7, \<^verbatim>\<open>model = joblib.load('model.joblib')\<close>; \<open>joblib_load\<close> is the file system as
  the loader reads it. An exception here ends the process before it serves.
\<close>

definition startup :: "(string \<Rightarrow> exn + 'm) \<Rightarrow> exn + 'm process" where
  "startup joblib_load =
     (case joblib_load ''model.joblib'' of
        Inl e \<Rightarrow> Inl e
      | Inr m \<Rightarrow> Inr \<lparr>model = m, loads = [''model.joblib'']\<rparr>)"

text \<open>
  Lines 13 to 28, the handler. It has no \<^verbatim>\<open>try\<close>: an exception of any step ends
  it. The result is the response or the exception that leaves the handler, and the
  process state afterwards.
\<close>

definition predict :: "'m predictor \<Rightarrow> 'm process \<Rightarrow> request \<Rightarrow> (exn + response) \<times> 'm process" where
  "predict model_predict st req =
     (case get_json req of
        Inl e \<Rightarrow> (Inl e, st)
      | Inr data \<Rightarrow>
          (case py_get data ''engagement_score'' (PInt 0) of
             Inl e \<Rightarrow> (Inl e, st)
           | Inr engagement_score \<Rightarrow>
               (case py_get data ''experience_score'' (PInt 0) of
                  Inl e \<Rightarrow> (Inl e, st)
                | Inr experience_score \<Rightarrow>
                    (case model_predict (model st) [[engagement_score, experience_score]] of
                       (Inl e, m') \<Rightarrow> (Inl e, st\<lparr>model := m'\<rparr>)
                     | (Inr ys, m') \<Rightarrow>
                         (case first ys of
                            Inl e \<Rightarrow> (Inl e, st\<lparr>model := m'\<rparr>)
                          | Inr prediction \<Rightarrow>
                              (jsonify [(''satisfaction_score'', prediction),
                                        (''model_version'', PStr ''1.0.0'')],
                               st\<lparr>model := m'\<rparr>))))))"

text \<open>
  \<^verbatim>\<open>app.run\<close>: the requests routed to the handler, one after the other; an exception
  of one request does not end the process.
\<close>

fun serve :: "'m predictor \<Rightarrow> 'm process \<Rightarrow> request list \<Rightarrow> (exn + response) list \<times> 'm process" where
  "serve model_predict st [] = ([], st)"
| "serve model_predict st (r # rs) =
     (case predict model_predict st r of
        (out, st') \<Rightarrow>
          (case serve model_predict st' rs of
             (outs, st'') \<Rightarrow> (out # outs, st'')))"

text \<open>The module run as a program: load the model, then serve.\<close>

definition main :: "(string \<Rightarrow> exn + 'm) \<Rightarrow> 'm predictor \<Rightarrow> request list \<Rightarrow> exn + ((exn + response) list \<times> 'm process)" where
  "main joblib_load model_predict reqs =
     (case startup joblib_load of
        Inl e \<Rightarrow> Inl e
      | Inr st \<Rightarrow> Inr (serve model_predict st reqs))"

text \<open>A model whose \<open>predict\<close> leaves the model object as it found it.\<close>

definition read_only :: "'m predictor \<Rightarrow> bool" where
  "read_only model_predict = (\<forall>m X. snd (model_predict m X) = m)"

subsection \<open>A sample model\<close>

text \<open>
  A regression model over two integer features, used to run the handler on concrete
  requests: the state is its intercept, the prediction is the sum of the features and
  the intercept, and a row that is not two integers is rejected, as a numeric model
  rejects a feature it cannot convert.
\<close>

definition affine_model :: "int predictor" where
  "affine_model m X =
     (case X of
        [[PInt a, PInt b]] \<Rightarrow> (Inr [PInt (a + b + m)], m)
      | _ \<Rightarrow> (Inl (Raised ''ValueError''), m))"

text \<open>
  A second sample model, one that accepts any two features: it reads a feature that is
  not an integer as 0, as a model that imputes a missing value does.
\<close>

definition imputing_model :: "int predictor" where
  "imputing_model m X =
     (case X of
        [[a, b]] \<Rightarrow>
          (Inr [PInt ((case a of PInt i \<Rightarrow> i | _ \<Rightarrow> 0) + (case b of PInt i \<Rightarrow> i | _ \<Rightarrow> 0) + m)], m)
      | _ \<Rightarrow> (Inl (Raised ''ValueError''), m))"

section \<open>The handler, step by step\<close>

lemmas run = predict_def py_get_def affine_model_def first_def jsonify_def

lemma py_get_not_dict: "\<not> is_dict v \<Longrightarrow> py_get v k dflt = Inl AttributeError"
  by (cases v) (simp_all add: is_dict_def py_get_def)

lemma py_get_dict:
  "py_get (PDict d) k dflt = Inr (case map_of d k of None \<Rightarrow> dflt | Some v \<Rightarrow> v)"
  by (simp add: py_get_def split: option.split)

text \<open>
  On a body that is a JSON object the handler is one call of the model, on the row of
  the two looked-up values, followed by the indexing and the encoding of the result.
\<close>

lemma predict_dict:
  "predict model_predict st \<lparr>get_json = Inr (PDict d)\<rparr> =
     (case model_predict (model st)
             [[case map_of d ''engagement_score'' of None \<Rightarrow> PInt 0 | Some v \<Rightarrow> v,
               case map_of d ''experience_score'' of None \<Rightarrow> PInt 0 | Some v \<Rightarrow> v]] of
        (Inl e, m') \<Rightarrow> (Inl e, st\<lparr>model := m'\<rparr>)
      | (Inr ys, m') \<Rightarrow>
          (case first ys of
             Inl e \<Rightarrow> (Inl e, st\<lparr>model := m'\<rparr>)
           | Inr prediction \<Rightarrow>
               (jsonify [(''satisfaction_score'', prediction), (''model_version'', PStr ''1.0.0'')],
                st\<lparr>model := m'\<rparr>)))"
  by (simp add: predict_def py_get_dict)

text \<open>
  The only write of the handler to the process state is what the model's own
  \<open>predict\<close> leaves in the model object.
\<close>

lemma predict_state:
  "\<exists>m'. snd (predict model_predict st req) = st\<lparr>model := m'\<rparr> \<and>
        (m' = model st \<or> (\<exists>X. m' = snd (model_predict (model st) X)))"
proof (cases "get_json req")
  case (Inl e)
  then have "snd (predict model_predict st req) = st\<lparr>model := model st\<rparr>"
    by (simp add: predict_def)
  then show ?thesis by blast
next
  case (Inr data)
  show ?thesis
  proof (cases "is_dict data")
    case False
    then have "snd (predict model_predict st req) = st\<lparr>model := model st\<rparr>"
      using Inr by (simp add: predict_def py_get_not_dict)
    then show ?thesis by blast
  next
    case True
    then obtain d where d: "data = PDict d"
      by (cases data) (simp_all add: is_dict_def)
    define X where "X = [[case map_of d ''engagement_score'' of None \<Rightarrow> PInt 0 | Some v \<Rightarrow> v,
               case map_of d ''experience_score'' of None \<Rightarrow> PInt 0 | Some v \<Rightarrow> v]]"
    have "snd (predict model_predict st req) = st\<lparr>model := snd (model_predict (model st) X)\<rparr>"
      using Inr d by (simp add: predict_def py_get_dict X_def split: sum.splits prod.splits)
    then show ?thesis by blast
  qed
qed

lemma predict_read_only: "read_only model_predict \<Longrightarrow> snd (predict model_predict st req) = st"
  using predict_state [of model_predict st req] by (auto simp: read_only_def)

lemma predict_loads: "loads (snd (predict model_predict st req)) = loads st"
  using predict_state [of model_predict st req] by auto

lemma serve_Cons_state:
  "snd (serve model_predict st (r # rs)) = snd (serve model_predict (snd (predict model_predict st r)) rs)"
  by (simp split: prod.splits)

lemma serve_loads: "loads (snd (serve model_predict st reqs)) = loads st"
  by (induction reqs arbitrary: st) (simp_all add: serve_Cons_state predict_loads del: serve.simps(2))

lemma serve_read_only: "read_only model_predict \<Longrightarrow> snd (serve model_predict st reqs) = st"
  by (induction reqs arbitrary: st) (simp_all add: serve_Cons_state predict_read_only del: serve.simps(2))

lemma affine_model_read_only: "read_only affine_model"
  by (simp add: read_only_def affine_model_def split: list.split pyval.split)

section \<open>The prediction contract\<close>

text \<open>
  C1. Numeric inputs. Let the body be a JSON object whose fields \<open>engagement_score\<close> and
  \<open>experience_score\<close> hold the numbers \<open>e0\<close> and \<open>e1\<close>, and let the model's prediction on
  the single row \<open>[[e0, e1]]\<close> (the features in that order) return a sequence whose
  first element \<open>y\<close> the JSON encoder can encode. Then the handler answers with status
  200, and \<open>satisfaction_score\<close> is \<open>y\<close>.
\<close>

theorem predict_numeric_fields:
  assumes "is_number e0" and "is_number e1"
    and "map_of d ''engagement_score'' = Some e0"
    and "map_of d ''experience_score'' = Some e1"
    and "fst (model_predict (model st) [[e0, e1]]) = Inr (y # ys)"
    and "json_encodable y"
  shows "fst (predict model_predict st \<lparr>get_json = Inr (PDict d)\<rparr>) =
           Inr \<lparr>status = 200,
                body = [(''satisfaction_score'', y), (''model_version'', PStr ''1.0.0'')]\<rparr>"
proof -
  obtain m' where "model_predict (model st) [[e0, e1]] = (Inr (y # ys), m')"
    using assms(5) by (cases "model_predict (model st) [[e0, e1]]") simp
  then show ?thesis
    using assms(3,4,6) by (simp add: predict_dict first_def jsonify_def)
qed

theorem predict_numeric_fields_witness:
  "is_number (PInt 5) \<and> is_number (PInt 3) \<and>
   map_of [(''engagement_score'', PInt 5), (''experience_score'', PInt 3)] ''engagement_score'' = Some (PInt 5) \<and>
   map_of [(''engagement_score'', PInt 5), (''experience_score'', PInt 3)] ''experience_score'' = Some (PInt 3) \<and>
   fst (affine_model (model \<lparr>model = 0, loads = [''model.joblib'']\<rparr>) [[PInt 5, PInt 3]]) = Inr [PInt 8] \<and>
   json_encodable (PInt 8) \<and>
   fst (predict affine_model \<lparr>model = 0, loads = [''model.joblib'']\<rparr>
          \<lparr>get_json = Inr (PDict [(''engagement_score'', PInt 5), (''experience_score'', PInt 3)])\<rparr>) =
     Inr \<lparr>status = 200,
          body = [(''satisfaction_score'', PInt 8), (''model_version'', PStr ''1.0.0'')]\<rparr>"
proof -
  have h1: "is_number (PInt 5)" and h2: "is_number (PInt 3)"
    by (simp_all add: is_number_def)
  have h3: "map_of [(''engagement_score'', PInt 5), (''experience_score'', PInt 3)] ''engagement_score'' = Some (PInt 5)"
    by simp
  have h4: "map_of [(''engagement_score'', PInt 5), (''experience_score'', PInt 3)] ''experience_score'' = Some (PInt 3)"
    by simp
  have h5: "fst (affine_model (model \<lparr>model = 0, loads = [''model.joblib'']\<rparr>) [[PInt 5, PInt 3]]) = Inr [PInt 8]"
    by (simp add: affine_model_def)
  have h6: "json_encodable (PInt 8)"
    by simp
  show ?thesis
    using h1 h2 h3 h4 h5 h6
      predict_numeric_fields [where model_predict = affine_model
        and st = "\<lparr>model = 0, loads = [''model.joblib'']\<rparr>", OF h1 h2 h3 h4 h5 h6]
    by simp
qed

text \<open>
  C2. Leaving a field out of a JSON object is the same as giving it the value 0: for
  \<open>engagement_score\<close>, for \<open>experience_score\<close>, and for the empty object against the
  object that gives 0 to both. The two requests have the same outcome (response or
  exception) and leave the same state.
\<close>

theorem absent_field_is_zero:
  "(map_of d ''engagement_score'' = None \<longrightarrow>
      predict model_predict st \<lparr>get_json = Inr (PDict d)\<rparr> =
      predict model_predict st \<lparr>get_json = Inr (PDict ((''engagement_score'', PInt 0) # d))\<rparr>) \<and>
   (map_of d ''experience_score'' = None \<longrightarrow>
      predict model_predict st \<lparr>get_json = Inr (PDict d)\<rparr> =
      predict model_predict st \<lparr>get_json = Inr (PDict ((''experience_score'', PInt 0) # d))\<rparr>) \<and>
   predict model_predict st \<lparr>get_json = Inr (PDict [])\<rparr> =
   predict model_predict st
     \<lparr>get_json = Inr (PDict [(''engagement_score'', PInt 0), (''experience_score'', PInt 0)])\<rparr>"
  by (simp add: predict_dict)

theorem absent_field_is_zero_witness:
  "map_of [(''experience_score'', PInt 3)] ''engagement_score'' = None \<and>
   predict affine_model \<lparr>model = 0, loads = [''model.joblib'']\<rparr>
     \<lparr>get_json = Inr (PDict [(''experience_score'', PInt 3)])\<rparr> =
   predict affine_model \<lparr>model = 0, loads = [''model.joblib'']\<rparr>
     \<lparr>get_json = Inr (PDict [(''engagement_score'', PInt 0), (''experience_score'', PInt 3)])\<rparr> \<and>
   map_of [(''engagement_score'', PInt 5)] ''experience_score'' = None \<and>
   predict affine_model \<lparr>model = 0, loads = [''model.joblib'']\<rparr>
     \<lparr>get_json = Inr (PDict [(''engagement_score'', PInt 5)])\<rparr> =
   predict affine_model \<lparr>model = 0, loads = [''model.joblib'']\<rparr>
     \<lparr>get_json = Inr (PDict [(''experience_score'', PInt 0), (''engagement_score'', PInt 5)])\<rparr>"
proof -
  have h1: "map_of [(''experience_score'', PInt 3)] ''engagement_score'' = None"
    by simp
  have h2: "map_of [(''engagement_score'', PInt 5)] ''experience_score'' = None"
    by simp
  show ?thesis
    using h1 h2
      absent_field_is_zero [of "[(''experience_score'', PInt 3)]" affine_model
        "\<lparr>model = 0, loads = [''model.joblib'']\<rparr>"]
      absent_field_is_zero [of "[(''engagement_score'', PInt 5)]" affine_model
        "\<lparr>model = 0, loads = [''model.joblib'']\<rparr>"]
    by simp
qed

text \<open>
  C3, as the code has it. A field is replaced by 0 exactly when it is absent. A value
  that is present, a number or not, goes to the model as it is: the request is handled
  as the object that spells out both fields, with 0 for an absent one only, and the
  model is called on the row of these two values.
\<close>

theorem field_value_passed_as_is:
  "predict model_predict st \<lparr>get_json = Inr (PDict d)\<rparr> =
   predict model_predict st
     \<lparr>get_json = Inr (PDict
        [(''engagement_score'',
            case map_of d ''engagement_score'' of None \<Rightarrow> PInt 0 | Some v \<Rightarrow> v),
         (''experience_score'',
            case map_of d ''experience_score'' of None \<Rightarrow> PInt 0 | Some v \<Rightarrow> v)])\<rparr> \<and>
   snd (predict model_predict st \<lparr>get_json = Inr (PDict d)\<rparr>) =
   st\<lparr>model := snd (model_predict (model st)
        [[case map_of d ''engagement_score'' of None \<Rightarrow> PInt 0 | Some v \<Rightarrow> v,
          case map_of d ''experience_score'' of None \<Rightarrow> PInt 0 | Some v \<Rightarrow> v]])\<rparr>"
  by (simp add: predict_dict split: prod.splits sum.splits)

theorem field_value_passed_as_is_witness:
  "predict affine_model \<lparr>model = 0, loads = [''model.joblib'']\<rparr>
     \<lparr>get_json = Inr (PDict [(''experience_score'', PStr ''abc'')])\<rparr> =
   predict affine_model \<lparr>model = 0, loads = [''model.joblib'']\<rparr>
     \<lparr>get_json = Inr (PDict [(''engagement_score'', PInt 0), (''experience_score'', PStr ''abc'')])\<rparr> \<and>
   snd (predict affine_model \<lparr>model = 0, loads = [''model.joblib'']\<rparr>
          \<lparr>get_json = Inr (PDict [(''experience_score'', PStr ''abc'')])\<rparr>) =
   \<lparr>model = 0, loads = [''model.joblib'']\<rparr>
     \<lparr>model := snd (affine_model 0 [[PInt 0, PStr ''abc'']])\<rparr>"
  using field_value_passed_as_is [of affine_model "\<lparr>model = 0, loads = [''model.joblib'']\<rparr>"
      "[(''experience_score'', PStr ''abc'')]"]
  by (simp add: run)

text \<open>
  C3 as it is worded (a present value that is not a number gives the same prediction
  as an absent field) fails: with the string \<open>abc\<close> in \<open>engagement_score\<close> the sample
  model is called on \<open>[[abc, 0]]\<close> and rejects it, while the empty object is answered
  with the prediction for \<open>[[0, 0]]\<close>.
\<close>

theorem non_numeric_field_counterexample:
  "\<not> is_number (PStr ''abc'') \<and>
   fst (predict affine_model \<lparr>model = 0, loads = [''model.joblib'']\<rparr>
          \<lparr>get_json = Inr (PDict [(''engagement_score'', PStr ''abc'')])\<rparr>) \<noteq>
   fst (predict affine_model \<lparr>model = 0, loads = [''model.joblib'']\<rparr>
          \<lparr>get_json = Inr (PDict [])\<rparr>) \<and>
   fst (predict affine_model \<lparr>model = 0, loads = [''model.joblib'']\<rparr>
          \<lparr>get_json = Inr (PDict [(''engagement_score'', PStr ''abc'')])\<rparr>) =
     Inl (Raised ''ValueError'') \<and>
   fst (predict affine_model \<lparr>model = 0, loads = [''model.joblib'']\<rparr>
          \<lparr>get_json = Inr (PDict [])\<rparr>) =
     Inr \<lparr>status = 200,
          body = [(''satisfaction_score'', PInt 0), (''model_version'', PStr ''1.0.0'')]\<rparr>"
  by (simp add: is_number_def predict_def py_get_def affine_model_def first_def jsonify_def)

text \<open>
  C4. Whenever the handler answers with a response, its status is 200, its
  \<open>model_version\<close> is the string \<open>1.0.0\<close>, and its fields are \<open>satisfaction_score\<close> and
  \<open>model_version\<close> and no other.
\<close>

theorem success_response_shape:
  assumes "fst (predict model_predict st req) = Inr resp"
  shows "status resp = 200 \<and>
         map_of (body resp) ''model_version'' = Some (PStr ''1.0.0'') \<and>
         map fst (body resp) = [''satisfaction_score'', ''model_version'']"
  using assms
  by (auto simp: predict_def jsonify_def split: sum.splits prod.splits if_splits)

theorem success_response_shape_witness:
  "fst (predict affine_model \<lparr>model = 0, loads = [''model.joblib'']\<rparr>
          \<lparr>get_json = Inr (PDict [(''engagement_score'', PInt 5), (''experience_score'', PInt 3)])\<rparr>) =
     Inr \<lparr>status = 200,
          body = [(''satisfaction_score'', PInt 8), (''model_version'', PStr ''1.0.0'')]\<rparr> \<and>
   status \<lparr>status = 200,
           body = [(''satisfaction_score'', PInt 8), (''model_version'', PStr ''1.0.0'')]\<rparr> = 200 \<and>
   map_of (body \<lparr>status = 200,
           body = [(''satisfaction_score'', PInt 8), (''model_version'', PStr ''1.0.0'')]\<rparr>)
     ''model_version'' = Some (PStr ''1.0.0'') \<and>
   map fst (body \<lparr>status = 200,
           body = [(''satisfaction_score'', PInt 8), (''model_version'', PStr ''1.0.0'')]\<rparr>) =
     [''satisfaction_score'', ''model_version'']"
proof -
  have h: "fst (predict affine_model \<lparr>model = 0, loads = [''model.joblib'']\<rparr>
          \<lparr>get_json = Inr (PDict [(''engagement_score'', PInt 5), (''experience_score'', PInt 3)])\<rparr>) =
     Inr \<lparr>status = 200,
          body = [(''satisfaction_score'', PInt 8), (''model_version'', PStr ''1.0.0'')]\<rparr>"
    by (simp add: run)
  show ?thesis
    using h success_response_shape [OF h] by simp
qed

section \<open>The model as process state\<close>

text \<open>
  C5. Determinism. With a model whose \<open>predict\<close> does not change the model object, a
  request gets the same answer whenever it is served: after any requests served in
  between (in particular right after the same request) as at the start.
\<close>

theorem same_request_same_response:
  assumes "read_only model_predict"
  shows "fst (predict model_predict (snd (serve model_predict st reqs)) req) =
         fst (predict model_predict st req)"
  using assms by (simp add: serve_read_only)

theorem same_request_same_response_witness:
  "read_only affine_model \<and>
   fst (predict affine_model
          (snd (serve affine_model \<lparr>model = 0, loads = [''model.joblib'']\<rparr>
                  [\<lparr>get_json = Inr (PDict [(''engagement_score'', PInt 5), (''experience_score'', PInt 3)])\<rparr>]))
          \<lparr>get_json = Inr (PDict [(''engagement_score'', PInt 5), (''experience_score'', PInt 3)])\<rparr>) =
   fst (predict affine_model \<lparr>model = 0, loads = [''model.joblib'']\<rparr>
          \<lparr>get_json = Inr (PDict [(''engagement_score'', PInt 5), (''experience_score'', PInt 3)])\<rparr>)"
  using affine_model_read_only
    same_request_same_response [OF affine_model_read_only,
      of "\<lparr>model = 0, loads = [''model.joblib'']\<rparr>"
         "[\<lparr>get_json = Inr (PDict [(''engagement_score'', PInt 5), (''experience_score'', PInt 3)])\<rparr>]"
         "\<lparr>get_json = Inr (PDict [(''engagement_score'', PInt 5), (''experience_score'', PInt 3)])\<rparr>"]
  by (simp add: run)

text \<open>
  C7. In a run of the program that serves requests, the model file is the only file
  read, it is read once, by the startup that precedes the serving, and the handler
  reads no file. The handler writes nothing to the process state itself: with a model
  whose \<open>predict\<close> does not change the model object, the state after any sequence of
  requests is the state the startup produced.
\<close>

theorem model_loaded_once_never_written:
  assumes "main joblib_load model_predict reqs = Inr (outs, st)"
  shows "loads st = [''model.joblib''] \<and>
         (read_only model_predict \<longrightarrow> startup joblib_load = Inr st)"
proof -
  obtain st0 where st0: "startup joblib_load = Inr st0"
    and sv: "serve model_predict st0 reqs = (outs, st)"
    using assms by (auto simp: main_def split: sum.splits)
  have l0: "loads st0 = [''model.joblib'']"
    using st0 by (auto simp: startup_def split: sum.splits)
  have st: "st = snd (serve model_predict st0 reqs)"
    using sv by simp
  have "loads st = [''model.joblib'']"
    using l0 by (simp add: st serve_loads)
  moreover have "read_only model_predict \<longrightarrow> startup joblib_load = Inr st"
    using st0 by (simp add: st serve_read_only)
  ultimately show ?thesis by blast
qed

theorem model_loaded_once_never_written_witness:
  "main (\<lambda>path. if path = ''model.joblib'' then Inr 2 else Inl (Raised ''FileNotFoundError''))
     affine_model
     [\<lparr>get_json = Inr (PDict [(''engagement_score'', PInt 5), (''experience_score'', PInt 3)])\<rparr>,
      \<lparr>get_json = Inr PNone\<rparr>] =
     Inr ([Inr \<lparr>status = 200,
               body = [(''satisfaction_score'', PInt 10), (''model_version'', PStr ''1.0.0'')]\<rparr>,
           Inl AttributeError],
          \<lparr>model = 2, loads = [''model.joblib'']\<rparr>) \<and>
   read_only affine_model \<and>
   loads \<lparr>model = (2::int), loads = [''model.joblib'']\<rparr> = [''model.joblib''] \<and>
   startup (\<lambda>path. if path = ''model.joblib'' then Inr 2 else Inl (Raised ''FileNotFoundError'')) =
     Inr \<lparr>model = (2::int), loads = [''model.joblib'']\<rparr>"
proof -
  have h: "main (\<lambda>path. if path = ''model.joblib'' then Inr 2 else Inl (Raised ''FileNotFoundError''))
     affine_model
     [\<lparr>get_json = Inr (PDict [(''engagement_score'', PInt 5), (''experience_score'', PInt 3)])\<rparr>,
      \<lparr>get_json = Inr PNone\<rparr>] =
     Inr ([Inr \<lparr>status = 200,
               body = [(''satisfaction_score'', PInt 10), (''model_version'', PStr ''1.0.0'')]\<rparr>,
           Inl AttributeError],
          \<lparr>model = 2, loads = [''model.joblib'']\<rparr>)"
    by (simp add: main_def startup_def run)
  show ?thesis
    using h affine_model_read_only model_loaded_once_never_written [OF h]
    by simp
qed

section \<open>Values that are not numbers\<close>

text \<open>
  C8, as the code has it. A field that is present with the value null, or with any
  other value that is not a number, is not replaced by 0: the model is called on the
  row that holds the value itself. What becomes of the request is the model's
  decision: when the model raises on that row the exception leaves the handler and the
  request fails, and when the model returns a prediction that can be encoded the
  request is answered with status 200 like any other.
\<close>

theorem non_numeric_field_not_defaulted:
  assumes "\<not> is_number v"
  shows "(map_of d ''engagement_score'' = Some v \<longrightarrow>
            snd (predict model_predict st \<lparr>get_json = Inr (PDict d)\<rparr>) =
              st\<lparr>model := snd (model_predict (model st)
                [[v, case map_of d ''experience_score'' of None \<Rightarrow> PInt 0 | Some w \<Rightarrow> w]])\<rparr> \<and>
            (fst (model_predict (model st)
                [[v, case map_of d ''experience_score'' of None \<Rightarrow> PInt 0 | Some w \<Rightarrow> w]]) = Inl e \<longrightarrow>
             fst (predict model_predict st \<lparr>get_json = Inr (PDict d)\<rparr>) = Inl e) \<and>
            (fst (model_predict (model st)
                [[v, case map_of d ''experience_score'' of None \<Rightarrow> PInt 0 | Some w \<Rightarrow> w]]) = Inr (y # ys) \<longrightarrow>
             json_encodable y \<longrightarrow>
             fst (predict model_predict st \<lparr>get_json = Inr (PDict d)\<rparr>) =
               Inr \<lparr>status = 200,
                    body = [(''satisfaction_score'', y), (''model_version'', PStr ''1.0.0'')]\<rparr>)) \<and>
         (map_of d ''experience_score'' = Some v \<longrightarrow>
            snd (predict model_predict st \<lparr>get_json = Inr (PDict d)\<rparr>) =
              st\<lparr>model := snd (model_predict (model st)
                [[case map_of d ''engagement_score'' of None \<Rightarrow> PInt 0 | Some w \<Rightarrow> w, v]])\<rparr> \<and>
            (fst (model_predict (model st)
                [[case map_of d ''engagement_score'' of None \<Rightarrow> PInt 0 | Some w \<Rightarrow> w, v]]) = Inl e \<longrightarrow>
             fst (predict model_predict st \<lparr>get_json = Inr (PDict d)\<rparr>) = Inl e) \<and>
            (fst (model_predict (model st)
                [[case map_of d ''engagement_score'' of None \<Rightarrow> PInt 0 | Some w \<Rightarrow> w, v]]) = Inr (y # ys) \<longrightarrow>
             json_encodable y \<longrightarrow>
             fst (predict model_predict st \<lparr>get_json = Inr (PDict d)\<rparr>) =
               Inr \<lparr>status = 200,
                    body = [(''satisfaction_score'', y), (''model_version'', PStr ''1.0.0'')]\<rparr>))"
  by (auto simp: predict_dict first_def jsonify_def split: prod.splits sum.splits)

theorem non_numeric_field_not_defaulted_witness:
  "\<not> is_number PNone \<and>
   map_of [(''engagement_score'', PNone), (''experience_score'', PInt 3)] ''engagement_score'' = Some PNone \<and>
   fst (affine_model (model \<lparr>model = 0, loads = [''model.joblib'']\<rparr>) [[PNone, PInt 3]]) =
     Inl (Raised ''ValueError'') \<and>
   snd (predict affine_model \<lparr>model = 0, loads = [''model.joblib'']\<rparr>
          \<lparr>get_json = Inr (PDict [(''engagement_score'', PNone), (''experience_score'', PInt 3)])\<rparr>) =
     \<lparr>model = 0, loads = [''model.joblib'']\<rparr>
       \<lparr>model := snd (affine_model 0 [[PNone, PInt 3]])\<rparr> \<and>
   fst (predict affine_model \<lparr>model = 0, loads = [''model.joblib'']\<rparr>
          \<lparr>get_json = Inr (PDict [(''engagement_score'', PNone), (''experience_score'', PInt 3)])\<rparr>) =
     Inl (Raised ''ValueError'') \<and>
   fst (imputing_model (model \<lparr>model = 0, loads = [''model.joblib'']\<rparr>) [[PNone, PInt 3]]) =
     Inr [PInt 3] \<and>
   json_encodable (PInt 3) \<and>
   fst (predict imputing_model \<lparr>model = 0, loads = [''model.joblib'']\<rparr>
          \<lparr>get_json = Inr (PDict [(''engagement_score'', PNone), (''experience_score'', PInt 3)])\<rparr>) =
     Inr \<lparr>status = 200,
          body = [(''satisfaction_score'', PInt 3), (''model_version'', PStr ''1.0.0'')]\<rparr>"
proof -
  have h1: "\<not> is_number PNone"
    by (simp add: is_number_def)
  have h2: "map_of [(''engagement_score'', PNone), (''experience_score'', PInt 3)] ''engagement_score'' = Some PNone"
    by simp
  have h3: "fst (affine_model (model \<lparr>model = 0, loads = [''model.joblib'']\<rparr>) [[PNone, PInt 3]]) =
     Inl (Raised ''ValueError'')"
    by (simp add: affine_model_def)
  have h4: "fst (imputing_model (model \<lparr>model = 0, loads = [''model.joblib'']\<rparr>) [[PNone, PInt 3]]) =
     Inr [PInt 3]"
    by (simp add: imputing_model_def)
  have h5: "json_encodable (PInt 3)"
    by simp
  show ?thesis
    using h1 h2 h3 h4 h5
      non_numeric_field_not_defaulted [OF h1, of "[(''engagement_score'', PNone), (''experience_score'', PInt 3)]"
        affine_model "\<lparr>model = 0, loads = [''model.joblib'']\<rparr>" "Raised ''ValueError''"]
      non_numeric_field_not_defaulted [OF h1, of "[(''engagement_score'', PNone), (''experience_score'', PInt 3)]"
        imputing_model "\<lparr>model = 0, loads = [''model.joblib'']\<rparr>" _ "PInt 3" "[]"]
    by simp
qed

text \<open>
  C8 as it is worded (a present null makes the request fail rather than behave like an
  omitted field) fails: the model that reads a feature that is not an integer as 0
  answers the object with a null \<open>engagement_score\<close> with status 200, exactly as it
  answers the same object without the field.
\<close>

theorem null_field_accepted_counterexample:
  "\<not> is_number PNone \<and>
   fst (predict imputing_model \<lparr>model = 0, loads = [''model.joblib'']\<rparr>
          \<lparr>get_json = Inr (PDict [(''engagement_score'', PNone), (''experience_score'', PInt 3)])\<rparr>) =
     Inr \<lparr>status = 200,
          body = [(''satisfaction_score'', PInt 3), (''model_version'', PStr ''1.0.0'')]\<rparr> \<and>
   predict imputing_model \<lparr>model = 0, loads = [''model.joblib'']\<rparr>
     \<lparr>get_json = Inr (PDict [(''engagement_score'', PNone), (''experience_score'', PInt 3)])\<rparr> =
   predict imputing_model \<lparr>model = 0, loads = [''model.joblib'']\<rparr>
     \<lparr>get_json = Inr (PDict [(''experience_score'', PInt 3)])\<rparr>"
  by (simp add: is_number_def predict_def py_get_def imputing_model_def first_def jsonify_def)

text \<open>
  C9. Noninterference. Two JSON objects that agree on \<open>engagement_score\<close> and on
  \<open>experience_score\<close> (the value, or the absence of the key) get the same outcome and
  leave the same state, whatever their other keys are.
\<close>

theorem other_keys_ignored:
  assumes "map_of d ''engagement_score'' = map_of d' ''engagement_score''"
    and "map_of d ''experience_score'' = map_of d' ''experience_score''"
  shows "predict model_predict st \<lparr>get_json = Inr (PDict d)\<rparr> =
         predict model_predict st \<lparr>get_json = Inr (PDict d')\<rparr>"
  using assms by (simp add: predict_dict)

theorem other_keys_ignored_witness:
  "map_of [(''engagement_score'', PInt 5), (''debug'', PBool True)] ''engagement_score'' =
   map_of [(''user'', PStr ''ann''), (''engagement_score'', PInt 5)] ''engagement_score'' \<and>
   map_of [(''engagement_score'', PInt 5), (''debug'', PBool True)] ''experience_score'' =
   map_of [(''user'', PStr ''ann''), (''engagement_score'', PInt 5)] ''experience_score'' \<and>
   predict affine_model \<lparr>model = 0, loads = [''model.joblib'']\<rparr>
     \<lparr>get_json = Inr (PDict [(''engagement_score'', PInt 5), (''debug'', PBool True)])\<rparr> =
   predict affine_model \<lparr>model = 0, loads = [''model.joblib'']\<rparr>
     \<lparr>get_json = Inr (PDict [(''user'', PStr ''ann''), (''engagement_score'', PInt 5)])\<rparr>"
proof -
  have h1: "map_of [(''engagement_score'', PInt 5), (''debug'', PBool True)] ''engagement_score'' =
   map_of [(''user'', PStr ''ann''), (''engagement_score'', PInt 5)] ''engagement_score''"
    by simp
  have h2: "map_of [(''engagement_score'', PInt 5), (''debug'', PBool True)] ''experience_score'' =
   map_of [(''user'', PStr ''ann''), (''engagement_score'', PInt 5)] ''experience_score''"
    by simp
  show ?thesis
    using h1 h2 other_keys_ignored [OF h1 h2, of affine_model "\<lparr>model = 0, loads = [''model.joblib'']\<rparr>"]
    by simp
qed

text \<open>
  C10. A body that parses to a JSON value other than an object (null, a boolean, a
  number, a string, an array) never gives a prediction: the first field lookup raises
  \<open>AttributeError\<close>, the model is not called and the process state is unchanged.
\<close>

theorem predict_non_object_fails:
  "\<not> is_dict v \<Longrightarrow> predict model_predict st \<lparr>get_json = Inr v\<rparr> = (Inl AttributeError, st)"
  by (simp add: predict_def py_get_not_dict)

theorem predict_non_object_fails_witness:
  "\<not> is_dict (PList [PInt 5, PInt 3]) \<and>
   predict affine_model \<lparr>model = 0, loads = [''model.joblib'']\<rparr>
     \<lparr>get_json = Inr (PList [PInt 5, PInt 3])\<rparr>
   = (Inl AttributeError, \<lparr>model = 0, loads = [''model.joblib'']\<rparr>)"
proof -
  have h: "\<not> is_dict (PList [PInt 5, PInt 3])"
    by (simp add: is_dict_def)
  show ?thesis
    using h predict_non_object_fails [OF h, of affine_model "\<lparr>model = 0, loads = [''model.joblib'']\<rparr>"]
    by simp
qed

section \<open>Exceptions leave the handler\<close>

text \<open>
  The handler catches nothing. An exception raised by \<^verbatim>\<open>request.get_json()\<close> or
  by the model's \<open>predict\<close> is the handler's outcome; what status the framework gives
  such a request is decided outside this module.
\<close>

lemma predict_get_json_raises:
  "get_json req = Inl e \<Longrightarrow> predict model_predict st req = (Inl e, st)"
  by (simp add: predict_def)

lemma predict_model_raises:
  "model_predict (model st)
     [[case map_of d ''engagement_score'' of None \<Rightarrow> PInt 0 | Some v \<Rightarrow> v,
       case map_of d ''experience_score'' of None \<Rightarrow> PInt 0 | Some v \<Rightarrow> v]] = (Inl e, m') \<Longrightarrow>
   predict model_predict st \<lparr>get_json = Inr (PDict d)\<rparr> = (Inl e, st\<lparr>model := m'\<rparr>)"
  by (simp add: predict_dict)

end
